theory Spec2Isabelle
  imports Main "HOL-Library.Word"
begin

section \<open>The plmDCA back end: data model\<close>

text \<open>
  The source is one translation unit, \<^verbatim>\<open>plmdcaBackend.cpp\<close>, with two exported
  functions: \<^verbatim>\<open>plmdcaBackend\<close> (which contains the local class
  \<^verbatim>\<open>ObjectiveFunction\<close> and three function-local statics) and
  \<^verbatim>\<open>freeFieldsAndCouplings\<close>. Everything else it calls (the \<^verbatim>\<open>PlmDCA\<close>
  engine, \<^verbatim>\<open>lbfgs_malloc\<close>, \<^verbatim>\<open>lbfgs_parameter_init\<close>, \<^verbatim>\<open>lbfgs\<close>) lives in
  other files and enters the model as a record of parameters.

  Floating-point values are never inspected by this file, only passed on, so they are
  an abstract type \<open>'v\<close>; the engine object is an abstract type \<open>'e\<close>.
\<close>

type_synonym addr = nat

text \<open>One call of \<^verbatim>\<open>printf\<close>/\<^verbatim>\<open>fprintf\<close>/\<^verbatim>\<open>operator<<\<close>: the format string and its arguments.\<close>

datatype 'v parg = Int_arg int | Float_arg 'v

type_synonym 'v printed = "string \<times> 'v parg list"

text \<open>The two ways a call of \<^verbatim>\<open>plmdcaBackend\<close> can be left by an exception: the
  \<^verbatim>\<open>std::runtime_error("Invalid number of threads")\<close> thrown by the function itself, and
  an exception coming out of the engine (out of its constructor or out of its gradient),
  which nothing in this file catches.\<close>

datatype failure = Invalid_number_of_threads | Engine_failure

text \<open>The fields of \<^verbatim>\<open>lbfgs_parameter_t\<close> that \<^verbatim>\<open>run\<close> assigns. The literals
  \<^verbatim>\<open>1E-3\<close> and \<^verbatim>\<open>1E-4\<close> are kept as written: decimal mantissa and exponent.\<close>

type_synonym literal = "int \<times> int"

record lbfgs_parameter_t =
  param_m :: int
  epsilon :: literal
  max_iterations :: int
  max_linesearch :: int
  ftol :: literal

text \<open>A record of the calls made to the collaborators, in order; for \<^verbatim>\<open>lbfgs\<close> with
  the number of variables, the buffer and the parameters it is handed.\<close>

datatype call =
    New_PlmDCA
  | Lbfgs_malloc int
  | InitFieldsAndCouplings addr
  | Lbfgs int addr lbfgs_parameter_t
  | Gradient addr addr
  | Delete_array addr

text \<open>The host: heap blocks of floats (\<open>mem\<close> gives a block's contents, \<open>live\<close> the
  blocks currently allocated, \<open>brk\<close> the next fresh address), the two output streams and
  the call record. A pointer is an address; the null pointer is \<open>None\<close>.\<close>

record 'v world =
  mem :: "addr \<Rightarrow> 'v list"
  live :: "addr set"
  brk :: addr
  stdout :: "'v printed list"
  stderr :: "'v printed list"
  calls :: "call list"

text \<open>The three function-local statics of \<^verbatim>\<open>plmdcaBackend\<close>. They are initialised the
  first time control passes their declarations and never assigned afterwards; before
  that the process holds \<open>None\<close>.\<close>

record 'e statics =
  plmdca_inst :: 'e
  num_iterations :: int
  logging :: bool

text \<open>The local class \<^verbatim>\<open>ObjectiveFunction\<close>: its only member is \<^verbatim>\<open>m_x\<close>.\<close>

record ObjectiveFunction =
  m_x :: "addr option"

text \<open>The two callbacks as the optimizer sees them. An evaluation that is left by an
  exception gives \<open>None\<close>.\<close>

type_synonym 'v evaluate_cb =
  "ObjectiveFunction \<Rightarrow> addr \<Rightarrow> addr \<Rightarrow> int \<Rightarrow> 'v \<Rightarrow> 'v world \<Rightarrow> 'v option \<times> 'v world"

type_synonym 'v progress_cb =
  "ObjectiveFunction \<Rightarrow> addr \<Rightarrow> addr \<Rightarrow> 'v \<Rightarrow> 'v \<Rightarrow> 'v \<Rightarrow> 'v \<Rightarrow> int \<Rightarrow> int \<Rightarrow> int
     \<Rightarrow> 'v world \<Rightarrow> int \<times> 'v world"

text \<open>
  The collaborators that are not part of this file:
  \<^item> \<open>OPENMP\<close>: whether the macro \<^verbatim>\<open>_OPENMP\<close> is defined at compile time;
  \<^item> \<open>PlmDCA\<close>: the engine's constructor, with the arguments in the order of the
    source; \<open>None\<close> when the constructor throws;
  \<^item> \<open>initFieldsAndCouplings\<close>: the new contents of the buffer it is given;
  \<^item> \<open>gradient\<close>: from the contents of \<^verbatim>\<open>x\<close> and \<^verbatim>\<open>g\<close>, the objective value and the new
    contents of \<^verbatim>\<open>g\<close>, or \<open>None\<close> when the engine throws;
  \<^item> \<open>mem_available\<close>: whether the host grants a request for that many floats, and
    \<open>junk\<close>: what a fresh block holds;
  \<^item> \<open>lbfgs_parameter_init\<close>: the library's default parameters;
  \<^item> \<open>lbfgs\<close>: the optimizer, called with the callbacks; it returns the status and the
    final objective value, or \<open>None\<close> when an exception passes through it.
\<close>

record ('v, 'e) externals =
  OPENMP :: bool
  PlmDCA :: "string \<Rightarrow> 16 word \<Rightarrow> 32 word \<Rightarrow> 16 word \<Rightarrow> 'v \<Rightarrow> 'v \<Rightarrow> 'v \<Rightarrow> 32 word
               \<Rightarrow> 'e option"
  initFieldsAndCouplings :: "'e \<Rightarrow> 'v list \<Rightarrow> 'v list"
  gradient :: "'e \<Rightarrow> 'v list \<Rightarrow> 'v list \<Rightarrow> ('v \<times> 'v list) option"
  mem_available :: "int \<Rightarrow> bool"
  junk :: "nat \<Rightarrow> 'v"
  lbfgs_parameter_init :: lbfgs_parameter_t
  lbfgs :: "int \<Rightarrow> addr \<Rightarrow> 'v evaluate_cb \<Rightarrow> 'v progress_cb \<Rightarrow> ObjectiveFunction
              \<Rightarrow> lbfgs_parameter_t \<Rightarrow> 'v world \<Rightarrow> (int \<times> 'v) option \<times> 'v world"


section \<open>The number of parameters\<close>

text \<open>
  \<^verbatim>\<open>const int total_num_params = seqs_len * num_site_states
      + seqs_len * (seqs_len - 1) * num_site_states * num_site_states/2;\<close>

  \<^verbatim>\<open>seqs_len\<close> is \<^verbatim>\<open>unsigned int\<close> and \<^verbatim>\<open>num_site_states\<close> is \<^verbatim>\<open>unsigned short\<close>, so
  every operation is carried out in 32-bit unsigned arithmetic (the short is widened),
  from left to right, and the division is the unsigned one. The result is then
  converted to \<^verbatim>\<open>int\<close>, which \<open>sint\<close> reads off.
\<close>

definition total_num_params :: "32 word \<Rightarrow> 16 word \<Rightarrow> 32 word" where
  "total_num_params seqs_len num_site_states =
     seqs_len * ucast num_site_states
       + seqs_len * (seqs_len - 1) * ucast num_site_states * ucast num_site_states div 2"

text \<open>The specification's formula \<open>N = L\<cdot>Q + L\<cdot>(L-1)/2\<cdot>Q\<^sup>2\<close>, over the natural numbers.\<close>

definition spec_N :: "nat \<Rightarrow> nat \<Rightarrow> nat" where
  "spec_N L Q = L * Q + L * (L - 1) div 2 * Q\<^sup>2"


section \<open>The objective function adapter\<close>

text \<open>Modelled from the spec: \<^verbatim>\<open>lbfgs_malloc\<close> belongs to the optimizer library, which is
  not in this file. It "allocates the Parameter Vector (fails with an allocation error if
  the host cannot provide memory)": a fresh block of \<open>n\<close> floats, or the null pointer.\<close>

definition lbfgs_malloc :: "('v, 'e) externals \<Rightarrow> int \<Rightarrow> 'v world \<Rightarrow> addr option \<times> 'v world" where
  "lbfgs_malloc X n w =
     (if mem_available X n then
        (Some (brk w),
         w\<lparr>mem := (mem w)(brk w := map (junk X) [0..<nat n]),
           live := insert (brk w) (live w),
           brk := Suc (brk w),
           calls := calls w @ [Lbfgs_malloc n]\<rparr>)
      else (None, w\<lparr>calls := calls w @ [Lbfgs_malloc n]\<rparr>))"

definition getFieldsAndCouplings :: "ObjectiveFunction \<Rightarrow> addr option" where
  "getFieldsAndCouplings this = m_x this"

text \<open>\<^verbatim>\<open>evaluate\<close>: \<^verbatim>\<open>fx = plmdca_inst.gradient(x, g); return fx;\<close>. There is no
  \<^verbatim>\<open>try\<close> block, so an exception of the engine leaves the callback.\<close>

definition evaluate :: "('v, 'e) externals \<Rightarrow> 'e statics \<Rightarrow> 'v evaluate_cb" where
  "evaluate X st this x g n step w =
     (let w1 = w\<lparr>calls := calls w @ [Gradient x g]\<rparr> in
      case gradient X (plmdca_inst st) (mem w x) (mem w g) of
        None \<Rightarrow> (None, w1)
      | Some (fx, g') \<Rightarrow> (Some fx, w1\<lparr>mem := (mem w1)(g := g')\<rparr>))"

text \<open>The static trampoline \<^verbatim>\<open>_evaluate\<close> casts \<^verbatim>\<open>instance\<close> and calls \<^verbatim>\<open>evaluate\<close>.\<close>

definition static_evaluate :: "('v, 'e) externals \<Rightarrow> 'e statics \<Rightarrow> 'v evaluate_cb" where
  "static_evaluate X st instance x g n step w = evaluate X st instance x g n step w"

definition progress :: "'e statics \<Rightarrow> 'v progress_cb" where
  "progress st this x g fx xnorm gnorm step n k ls w =
     (0,
      if logging st then
        w\<lparr>stderr := stderr w @
            [(''Iteration %d:\<newline>'', [Int_arg k]),
             (''fx = %f xnorm = %f, gnorm = %f, step = %f\<newline>'',
                [Float_arg fx, Float_arg xnorm, Float_arg gnorm, Float_arg step]),
             (''\<newline>'', [])]\<rparr>
      else w)"

text \<open>The static trampoline \<^verbatim>\<open>_progress\<close>.\<close>

definition static_progress :: "'e statics \<Rightarrow> 'v progress_cb" where
  "static_progress st instance x g fx xnorm gnorm step n k ls w =
     progress st instance x g fx xnorm gnorm step n k ls w"

text \<open>\<^verbatim>\<open>run\<close>. The result is the returned status (\<open>None\<close> when an exception passes
  through), the object with its \<^verbatim>\<open>m_x\<close>, and the world.\<close>

definition run ::
  "('v, 'e) externals \<Rightarrow> 'e statics \<Rightarrow> int \<Rightarrow> ObjectiveFunction \<Rightarrow> 'v world
     \<Rightarrow> (int option \<times> ObjectiveFunction) \<times> 'v world" where
  "run X st N this w =
     (case lbfgs_malloc X N w of
        (None, w1) \<Rightarrow>
          ((Some 1, this\<lparr>m_x := None\<rparr>),
           w1\<lparr>stdout := stdout w1 @
               [(''ERROR: Failed to allocate a memory block for variables.\<newline>'', [])]\<rparr>)
      | (Some a, w1) \<Rightarrow>
          (let this1 = this\<lparr>m_x := Some a\<rparr>;
               param = (lbfgs_parameter_init X)
                 \<lparr>epsilon := (1, - 3),
                  max_iterations := num_iterations st,
                  max_linesearch := 5,
                  ftol := (1, - 4),
                  param_m := 5\<rparr>;
               w2 = w1\<lparr>mem := (mem w1)(a := initFieldsAndCouplings X (plmdca_inst st) (mem w1 a)),
                       calls := calls w1 @ [InitFieldsAndCouplings a]\<rparr>
           in case lbfgs X N a (static_evaluate X st) (static_progress st) this1 param
                     (w2\<lparr>calls := calls w2 @ [Lbfgs N a param]\<rparr>) of
                (None, w3) \<Rightarrow> ((None, this1), w3)
              | (Some (ret, fx), w3) \<Rightarrow>
                  ((Some ret, this1),
                   if logging st then
                     w3\<lparr>stderr := stderr w3 @
                         [(''L-BFGS optimization terminated with status code = %d\<newline>'',
                             [Int_arg ret]),
                          (''fx = %f\<newline>'', [Float_arg fx])]\<rparr>
                   else w3)))"


section \<open>The exported functions\<close>

text \<open>The initialisation of the three statics: performed when they are not yet
  initialised, skipped otherwise. \<^verbatim>\<open>plmdca_inst\<close> is declared first; when its
  constructor throws, none of the three is initialised (the result \<open>None\<close>), the
  exception leaves \<^verbatim>\<open>plmdcaBackend\<close>, and the next call tries again.\<close>

definition static_init ::
  "('v, 'e) externals \<Rightarrow> 16 word \<Rightarrow> 16 word \<Rightarrow> string \<Rightarrow> 32 word \<Rightarrow> 'v \<Rightarrow> 'v \<Rightarrow> 'v
     \<Rightarrow> 32 word \<Rightarrow> 32 word \<Rightarrow> bool \<Rightarrow> 'e statics option \<Rightarrow> 'v world
     \<Rightarrow> 'e statics option \<times> 'v world" where
  "static_init X biomolecule num_site_states msa_file seqs_len seqid lambda_h lambda_J
       max_iteration num_threads verbose s w =
     (case s of
        Some st \<Rightarrow> (Some st, w)
      | None \<Rightarrow>
          (case PlmDCA X msa_file biomolecule seqs_len num_site_states seqid lambda_h lambda_J
                  num_threads of
             None \<Rightarrow> (None, w\<lparr>calls := calls w @ [New_PlmDCA]\<rparr>)
           | Some e \<Rightarrow>
               (Some \<lparr>plmdca_inst = e, num_iterations = sint max_iteration, logging = verbose\<rparr>,
                w\<lparr>calls := calls w @ [New_PlmDCA]\<rparr>)))"

text \<open>\<^verbatim>\<open>plmdcaBackend\<close>. The process state is the statics and the world; the result is
  the returned pointer, or the exception that left the function. The status that
  \<^verbatim>\<open>run\<close> returns is dropped, as in the source.\<close>

definition plmdcaBackend ::
  "('v, 'e) externals \<Rightarrow> 16 word \<Rightarrow> 16 word \<Rightarrow> string \<Rightarrow> 32 word \<Rightarrow> 'v \<Rightarrow> 'v \<Rightarrow> 'v
     \<Rightarrow> 32 word \<Rightarrow> 32 word \<Rightarrow> bool \<Rightarrow> 'e statics option \<times> 'v world
     \<Rightarrow> (failure + addr option) \<times> 'e statics option \<times> 'v world" where
  "plmdcaBackend X biomolecule num_site_states msa_file seqs_len seqid lambda_h lambda_J
       max_iteration num_threads verbose p =
     (case p of (s, w) \<Rightarrow>
        if \<not> OPENMP X \<and> 1 < num_threads then
          (Inl Invalid_number_of_threads, s,
           w\<lparr>stderr := stderr w @
               [(''Cannot set multiple threads when OpenMP is not supported\<newline>'', [])]\<rparr>)
        else
          (let N = sint (total_num_params seqs_len num_site_states) in
           case static_init X biomolecule num_site_states msa_file seqs_len seqid lambda_h
                  lambda_J max_iteration num_threads verbose s w of
             (None, w1) \<Rightarrow> (Inl Engine_failure, None, w1)
           | (Some st, w1) \<Rightarrow>
               (case run X st N \<lparr>m_x = None\<rparr> w1 of
                  ((None, obj), w2) \<Rightarrow> (Inl Engine_failure, Some st, w2)
                | ((Some ret, obj), w2) \<Rightarrow> (Inr (getFieldsAndCouplings obj), Some st, w2))))"

text \<open>\<^verbatim>\<open>freeFieldsAndCouplings\<close>: \<^verbatim>\<open>delete []\<close> when the pointer is not null. Deleting a
  block that is not allocated is undefined behaviour, which is the result \<open>None\<close>.\<close>

definition freeFieldsAndCouplings :: "addr option \<Rightarrow> 'v world \<Rightarrow> 'v world option" where
  "freeFieldsAndCouplings h_and_J w =
     (case h_and_J of
        None \<Rightarrow> Some w
      | Some a \<Rightarrow>
          if a \<in> live w then
            Some (w\<lparr>live := live w - {a}, calls := calls w @ [Delete_array a]\<rparr>)
          else None)"


section \<open>Contracts of the collaborators\<close>

text \<open>The engine's \<^verbatim>\<open>initFieldsAndCouplings\<close> and the optimizer work on the block they are
  handed: they write its elements, and neither resize nor release it. This is what the
  results about the returned buffer assume of them; of the optimizer it is assumed only
  for calls with the adapter's own callbacks.\<close>

definition writes_in_place :: "('v, 'e) externals \<Rightarrow> bool" where
  "writes_in_place X \<longleftrightarrow>
     (\<forall>e xs. length (initFieldsAndCouplings X e xs) = length xs) \<and>
     (\<forall>N a st obj p w.
        length (mem (snd (lbfgs X N a (static_evaluate X st) (static_progress st) obj p w)) a)
          = length (mem w a) \<and>
        (a \<in> live w \<longrightarrow>
           a \<in> live (snd (lbfgs X N a (static_evaluate X st) (static_progress st) obj p w))))"

text \<open>The parts of an optimizer that the specification leaves open: the zero of the
  floats, the norm, the convergence test, the line search with its parameter update
  (new iterate and step length from iterate and gradient), and the status codes.\<close>

datatype ending = Converged | Iteration_limit | Cancelled

record 'v search =
  zero_v :: 'v
  vnorm :: "'v list \<Rightarrow> 'v"
  converged :: "'v list \<Rightarrow> 'v list \<Rightarrow> bool"
  descend :: "'v list \<Rightarrow> 'v list \<Rightarrow> 'v list \<times> 'v"
  status :: "ending \<Rightarrow> int"

text \<open>Modelled from the spec: the iterations of the Optimizer Driver (the routine
  \<^verbatim>\<open>lbfgs\<close>, which is not in this file). The Driver "repeatedly invokes the evaluation
  callback to obtain gradient/value and the progress callback for diagnostics, performs
  line search and parameter updates, and returns a termination status"; the progress
  callback is "invoked once per completed iteration", after that iteration's evaluation;
  the run ends at "convergence or iteration limit". The first argument counts the
  iterations still allowed, \<open>k\<close> is the index of the iteration.\<close>

fun iterate ::
  "'v search \<Rightarrow> 'v evaluate_cb \<Rightarrow> 'v progress_cb \<Rightarrow> ObjectiveFunction \<Rightarrow> addr \<Rightarrow> addr \<Rightarrow> int
     \<Rightarrow> nat \<Rightarrow> int \<Rightarrow> 'v \<Rightarrow> 'v world \<Rightarrow> (int \<times> 'v) option \<times> 'v world" where
  "iterate S ev pr inst x g n 0 k fx w = (Some (status S Iteration_limit, fx), w)"
| "iterate S ev pr inst x g n (Suc r) k fx w =
     (if converged S (mem w x) (mem w g) then (Some (status S Converged, fx), w)
      else
        (case descend S (mem w x) (mem w g) of
           (x', step) \<Rightarrow>
             (case ev inst x g n step (w\<lparr>mem := (mem w)(x := x')\<rparr>) of
                (None, w1) \<Rightarrow> (None, w1)
              | (Some fx', w1) \<Rightarrow>
                  (case pr inst x g fx' (vnorm S (mem w1 x)) (vnorm S (mem w1 g)) step n k 1 w1 of
                     (ret, w2) \<Rightarrow>
                       if ret \<noteq> 0 then (Some (status S Cancelled, fx'), w2)
                       else iterate S ev pr inst x g n r (k + 1) fx' w2))))"

text \<open>Modelled from the spec: the Optimizer Driver \<^verbatim>\<open>lbfgs\<close>. It owns the Gradient Vector
  ("same length and layout as the Parameter Vector", "reused by the Driver across
  iterations"), performs the initial evaluation, and then at most \<open>max_iterations\<close>
  iterations: with \<open>max_iterations = 0\<close> "the Driver performs the initial evaluation
  (to report status) but no descent step".\<close>

definition lbfgs_spec ::
  "'v search \<Rightarrow> int \<Rightarrow> addr \<Rightarrow> 'v evaluate_cb \<Rightarrow> 'v progress_cb \<Rightarrow> ObjectiveFunction
     \<Rightarrow> lbfgs_parameter_t \<Rightarrow> 'v world \<Rightarrow> (int \<times> 'v) option \<times> 'v world" where
  "lbfgs_spec S n x ev pr inst param w =
     (let g = brk w;
          w0 = w\<lparr>mem := (mem w)(g := replicate (nat n) (zero_v S)),
                 live := insert g (live w),
                 brk := Suc g\<rparr>
      in case ev inst x g n (zero_v S) w0 of
           (None, w1) \<Rightarrow> (None, w1)
         | (Some fx, w1) \<Rightarrow>
             (case iterate S ev pr inst x g n (nat (max_iterations param)) 1 fx w1 of
                (r, w2) \<Rightarrow> (r, w2\<lparr>live := live w2 - {g}\<rparr>)))"


section \<open>Concrete instances\<close>

text \<open>A process at start-up: nothing allocated, nothing printed.\<close>

definition boot :: "'v world" where
  "boot = \<lparr>mem = (\<lambda>a. []), live = {}, brk = 0, stdout = [], stderr = [], calls = []\<rparr>"

definition defaults :: lbfgs_parameter_t where
  "defaults = \<lparr>param_m = 6, epsilon = (1, - 5), max_iterations = 0, max_linesearch = 40,
                ftol = (1, - 4)\<rparr>"

text \<open>A small set of collaborators over the integers, built without OpenMP: the engine
  object is the name of the alignment file it was constructed from, and its constructor
  throws when that name is empty; its objective has the gradient \<open>x\<close> at \<open>x\<close> (and is
  reported as \<open>0\<close>); it starts from the all-ones vector; the optimizer returns at once
  with status \<open>0\<close>.\<close>

definition still :: "(int, string) externals" where
  "still =
     \<lparr>OPENMP = False,
      PlmDCA = (\<lambda>msa_file biomolecule seqs_len num_site_states seqid lambda_h lambda_J
                  num_threads. if msa_file = [] then None else Some msa_file),
      initFieldsAndCouplings = (\<lambda>e xs. map (\<lambda>v. 1) xs),
      gradient = (\<lambda>e x g. Some (0, x)),
      mem_available = (\<lambda>n. True),
      junk = (\<lambda>i. 0),
      lbfgs_parameter_init = defaults,
      lbfgs = (\<lambda>N a ev pr obj p w. (Some (0, 0), w))\<rparr>"

text \<open>Plain gradient descent with unit step, never converged.\<close>

definition unit_step :: "int search" where
  "unit_step =
     \<lparr>zero_v = 0,
      vnorm = (\<lambda>xs. sum_list (map abs xs)),
      converged = (\<lambda>x g. False),
      descend = (\<lambda>x g. (map (\<lambda>(a, b). a - b) (zip x g), 1)),
      status = (\<lambda>t. case t of Converged \<Rightarrow> 0 | Iteration_limit \<Rightarrow> 1 | Cancelled \<Rightarrow> 2)\<rparr>"

text \<open>The same collaborators with the specification's Driver as the optimizer.\<close>

definition descending :: "(int, string) externals" where
  "descending = still\<lparr>lbfgs := lbfgs_spec unit_step\<rparr>"

text \<open>The same collaborators with an optimizer that moves every parameter by one and
  ends with the status it is given.\<close>

definition stopping :: "int \<Rightarrow> (int, string) externals" where
  "stopping c =
     still\<lparr>lbfgs := (\<lambda>N a ev pr obj p w.
               (Some (c, 0), w\<lparr>mem := (mem w)(a := map (\<lambda>v. v + 1) (mem w a))\<rparr>))\<rparr>"

text \<open>The same collaborators with an optimizer that returns at once and gives, as its
  status, the \<open>max_iterations\<close> it was handed.\<close>

definition echoing :: "(int, string) externals" where
  "echoing = still\<lparr>lbfgs := (\<lambda>N a ev pr obj p w. (Some (max_iterations p, 0), w))\<rparr>"

text \<open>The same collaborators on a host that has no memory left.\<close>

definition exhausted :: "(int, string) externals" where
  "exhausted = still\<lparr>mem_available := (\<lambda>n. False)\<rparr>"

text \<open>The same collaborators with an engine whose gradient throws.\<close>

definition throwing :: "(int, string) externals" where
  "throwing = still\<lparr>gradient := (\<lambda>e x g. None)\<rparr>"


section \<open>Arithmetic of the parameter count\<close>

lemma even_pairs: "even (l * (l - Suc 0))"
  by (cases l) auto

lemma spec_N_alt: "spec_N l q = l * q + l * (l - Suc 0) * q * q div 2"
proof -
  obtain h where h: "l * (l - Suc 0) = 2 * h"
    using even_pairs [of l] by (elim evenE)
  have "l * (l - Suc 0) * q * q = 2 * (h * (q * q))"
    by (simp only: h mult.assoc)
  moreover have "2 * (h * (q * q)) div 2 = h * (q * q)"
    by simp
  ultimately have "l * (l - Suc 0) * q * q div 2 = h * (q * q)"
    by (simp only:)
  moreover have "l * (l - Suc 0) div 2 = h"
    unfolding h by simp
  ultimately show ?thesis
    by (simp add: spec_N_def power2_eq_square)
qed

lemma unat_pred_mult:
  fixes L :: "32 word"
  shows "unat (L * (L - 1)) = unat L * (unat L - Suc 0) mod 2 ^ 32"
proof (cases "L = 0")
  case True
  then show ?thesis by simp
next
  case False
  then have "1 \<le> L" by (simp add: word_le_nat_alt unat_gt_0 Suc_leI)
  then have "unat (L - 1) = unat L - Suc 0" by (simp add: unat_sub)
  then show ?thesis by (simp add: unat_word_ariths)
qed

lemma unat_ucast_states:
  fixes Q :: "16 word"
  shows "unat (ucast Q :: 32 word) = unat Q"
proof -
  have "unat Q < 2 ^ 16" using unsigned_less [of Q] by simp
  then have "unat Q < 2 ^ 32" by simp
  then show ?thesis by (simp add: unsigned_ucast_eq take_bit_nat_eq_self)
qed

lemma mod_mult3_left:
  fixes a b c n :: nat
  shows "a mod n * b * c mod n = a * b * c mod n"
proof -
  have "a mod n * b * c mod n = a mod n * (b * c) mod n"
    by (simp only: mult.assoc)
  also have "\<dots> = a * (b * c) mod n"
    by (rule mod_mult_left_eq)
  also have "\<dots> = a * b * c mod n"
    by (simp only: mult.assoc)
  finally show ?thesis .
qed

lemma unat_total_num_params:
  "unat (total_num_params L Q) =
     (unat L * unat Q mod 2 ^ 32
        + (unat L * (unat L - Suc 0) * unat Q * unat Q mod 2 ^ 32) div 2) mod 2 ^ 32"
proof -
  have "unat (L * (L - 1) * ucast Q * ucast Q)
      = unat (L * (L - 1) * ucast Q) * unat Q mod 2 ^ 32"
    by (simp only: unat_word_ariths(2) [where 'a = 32] unat_ucast_states) simp
  also have "\<dots> = (unat (L * (L - 1)) * unat Q mod 2 ^ 32) * unat Q mod 2 ^ 32"
    by (simp only: unat_word_ariths(2) [where 'a = 32] unat_ucast_states) simp
  also have "\<dots> = (unat L * (unat L - Suc 0) mod 2 ^ 32) * unat Q * unat Q mod 2 ^ 32"
    by (simp only: unat_pred_mult mod_mult_left_eq [of "_ * unat Q"])
  also have "\<dots> = unat L * (unat L - Suc 0) * unat Q * unat Q mod 2 ^ 32"
    by (rule mod_mult3_left)
  finally have p: "unat (L * (L - 1) * ucast Q * ucast Q)
      = unat L * (unat L - Suc 0) * unat Q * unat Q mod 2 ^ 32" .
  have h: "unat (L * (L - 1) * ucast Q * ucast Q div 2) =
      unat (L * (L - 1) * ucast Q * ucast Q) div 2"
    by (simp add: unat_div_distrib)
  have a: "unat (L * ucast Q) = unat L * unat Q mod 2 ^ 32"
    by (simp add: unat_word_ariths unat_ucast_states)
  show ?thesis
    unfolding total_num_params_def
    by (simp only: unat_word_ariths(1) [where 'a = 32] h a p) simp
qed

lemma sint_unat_small:
  fixes w :: "32 word"
  assumes "unat w < 2 ^ 31"
  shows "sint w = int (unat w)"
proof -
  have "int (unat w) < int (2 ^ 31)" using assms by (simp only: of_nat_less_iff)
  then have "int (unat w) < 2 ^ 31" by simp
  moreover have "- (2 ^ 31) \<le> int (unat w)"
  proof (rule order_trans)
    show "- (2 ^ 31) \<le> (0::int)" by simp
    show "0 \<le> int (unat w)" by simp
  qed
  ultimately have "signed_take_bit 31 (int (unat w)) = int (unat w)"
    by (rule signed_take_bit_int_eq_self [rotated])
  moreover have "sint w = signed_take_bit 31 (int (unat w))"
    unfolding sint_uint uint_nat by simp
  ultimately show ?thesis by (simp only:)
qed


lemma total_num_params_exact:
  assumes "spec_N (unat L) (unat Q) < 2 ^ 31"
  shows "sint (total_num_params L Q) = int (spec_N (unat L) (unat Q))"
proof -
  define a where "a = unat L * unat Q"
  define p where "p = unat L * (unat L - Suc 0) * unat Q * unat Q"
  have m: "spec_N (unat L) (unat Q) = a + p div 2"
    by (simp only: spec_N_alt a_def p_def)
  have "even p"
    unfolding p_def using even_pairs [of "unat L"] by simp
  then have p2: "p = 2 * (p div 2)" by simp
  have "a + p div 2 < 2147483648" using assms unfolding m by simp
  then have a: "a < 4294967296" and h: "p div 2 < 2147483648" by simp_all
  have p: "p < 4294967296" using h p2 by linarith
  have "unat (total_num_params L Q) = (a mod 2 ^ 32 + p mod 2 ^ 32 div 2) mod 2 ^ 32"
    by (simp only: unat_total_num_params a_def p_def)
  also have "\<dots> = a + p div 2"
    using a p \<open>a + p div 2 < 2147483648\<close> by simp
  finally have u: "unat (total_num_params L Q) = spec_N (unat L) (unat Q)"
    by (simp only: m)
  show ?thesis
    using assms sint_unat_small [of "total_num_params L Q"] by (simp only: u)
qed

lemma total_num_params_exact_iff:
  "sint (total_num_params L Q) = int (spec_N (unat L) (unat Q))
     \<longleftrightarrow> spec_N (unat L) (unat Q) < 2 ^ 31"
proof
  assume e: "sint (total_num_params L Q) = int (spec_N (unat L) (unat Q))"
  have "sint (total_num_params L Q) < 2 ^ 31"
    using sint_lt [of "total_num_params L Q"] by simp
  then have "int (spec_N (unat L) (unat Q)) < int (2 ^ 31)"
    by (simp only: e) simp
  then show "spec_N (unat L) (unat Q) < 2 ^ 31"
    by (simp only: of_nat_less_iff)
next
  assume "spec_N (unat L) (unat Q) < 2 ^ 31"
  then show "sint (total_num_params L Q) = int (spec_N (unat L) (unat Q))"
    by (rule total_num_params_exact)
qed

lemma products_fit_bound:
  fixes l q :: nat
  assumes a: "l * q < 2 ^ 31" and p: "l * (l - 1) * q * q < 2 ^ 31"
  shows "spec_N l q < 2 ^ 31"
proof (cases "l \<le> 1")
  case True
  then have "l * (l - Suc 0) = 0" by (cases l) auto
  then have z: "l * (l - Suc 0) * q * q = 0" by simp
  show ?thesis unfolding spec_N_alt z using a by simp
next
  case False
  then have "l \<le> 2 * (l - Suc 0)" by simp
  then have "l * q * (l * q) \<le> l * q * (2 * (l - Suc 0) * q)"
    by (intro mult_le_mono) simp_all
  also have "\<dots> = 2 * (l * (l - Suc 0) * q * q)" by (simp add: mult_ac)
  also have "\<dots> < 2 * 2147483648"
  proof -
    have "l * (l - Suc 0) * q * q < 2147483648" using p by simp
    then show ?thesis by linarith
  qed
  finally have sq: "l * q * (l * q) < 4294967296" by simp
  have "l * q < 65536"
  proof (rule ccontr)
    assume "\<not> l * q < 65536"
    then have "65536 \<le> l * q" by simp
    then have "65536 * 65536 \<le> l * q * (l * q)" by (rule mult_le_mono) fact
    then show False using sq by simp
  qed
  moreover have "l * (l - Suc 0) * q * q div 2 < 1073741824" using p by simp
  ultimately show ?thesis by (simp add: spec_N_alt)
qed

text \<open>
  C10 (as amended). For every \<^verbatim>\<open>seqs_len\<close> \<open>L\<close> and \<^verbatim>\<open>num_site_states\<close> \<open>Q\<close>: the
  truncating division loses nothing, because \<open>L\<cdot>(L-1)\<close> is even; and the computed
  \<^verbatim>\<open>total_num_params\<close> equals the mathematical \<open>L\<cdot>Q + (L\<cdot>(L-1)/2)\<cdot>Q\<^sup>2\<close> exactly when that
  value is below \<open>2\<^sup>3\<^sup>1\<close>, that is, fits a 32-bit signed \<^verbatim>\<open>int\<close>. In particular it
  does whenever every intermediate product fits a 32-bit signed \<^verbatim>\<open>int\<close>. Beyond that
  bound the computed value differs from the mathematical one.
\<close>

theorem total_num_params_exact_range:
  "even (unat L * (unat L - 1)) \<and>
   unat L * (unat L - 1) * unat Q * unat Q mod 2 = 0 \<and>
   (sint (total_num_params L Q) = int (spec_N (unat L) (unat Q))
      \<longleftrightarrow> spec_N (unat L) (unat Q) < 2 ^ 31) \<and>
   (unat L * unat Q < 2 ^ 31 \<and>
    unat L * (unat L - 1) < 2 ^ 31 \<and>
    unat L * (unat L - 1) * unat Q < 2 ^ 31 \<and>
    unat L * (unat L - 1) * unat Q * unat Q < 2 ^ 31
      \<longrightarrow> sint (total_num_params L Q) = int (spec_N (unat L) (unat Q)))"
proof (intro conjI impI)
  show e: "even (unat L * (unat L - 1))"
    using even_pairs [of "unat L"] by simp
  then have "even (unat L * (unat L - 1) * unat Q * unat Q)"
    by simp
  then show "unat L * (unat L - 1) * unat Q * unat Q mod 2 = 0"
    by presburger
  show "sint (total_num_params L Q) = int (spec_N (unat L) (unat Q))
      \<longleftrightarrow> spec_N (unat L) (unat Q) < 2 ^ 31"
    by (rule total_num_params_exact_iff)
next
  assume "unat L * unat Q < 2 ^ 31 \<and>
    unat L * (unat L - 1) < 2 ^ 31 \<and>
    unat L * (unat L - 1) * unat Q < 2 ^ 31 \<and>
    unat L * (unat L - 1) * unat Q * unat Q < 2 ^ 31"
  then have "spec_N (unat L) (unat Q) < 2 ^ 31"
    by (intro products_fit_bound) simp_all
  then show "sint (total_num_params L Q) = int (spec_N (unat L) (unat Q))"
    by (rule total_num_params_exact)
qed

theorem total_num_params_exact_range_witness:
  "unat (3 :: 32 word) * unat (2 :: 16 word) < 2 ^ 31 \<and>
   unat (3 :: 32 word) * (unat (3 :: 32 word) - 1) < 2 ^ 31 \<and>
   unat (3 :: 32 word) * (unat (3 :: 32 word) - 1) * unat (2 :: 16 word) < 2 ^ 31 \<and>
   unat (3 :: 32 word) * (unat (3 :: 32 word) - 1) * unat (2 :: 16 word) * unat (2 :: 16 word)
     < 2 ^ 31 \<and>
   sint (total_num_params 3 2) = 18 \<and> spec_N 3 2 = 18"
  using total_num_params_exact_range [of 3 2] by (simp add: spec_N_def)

text \<open>
  Exceeding the signed range in a product is not enough to spoil the result: at
  \<open>L = 2\<close>, \<open>Q = 40000\<close> the
  product \<open>L\<cdot>(L-1)\<cdot>Q\<cdot>Q = 3200000000\<close> exceeds the range of a 32-bit signed \<^verbatim>\<open>int\<close>, yet
  the computed value is the mathematical one, \<open>1600080000\<close>.
\<close>

theorem total_num_params_unsigned_range:
  "\<not> unat (2 :: 32 word) * (unat (2 :: 32 word) - 1) * unat (40000 :: 16 word)
        * unat (40000 :: 16 word) < 2 ^ 31 \<and>
   sint (total_num_params 2 40000) = int (spec_N 2 40000) \<and>
   spec_N 2 40000 = 1600080000"
  by (simp add: total_num_params_def spec_N_def)

section \<open>The returned buffer\<close>

text \<open>What \<^verbatim>\<open>run\<close> does when the allocation succeeds, as one call of the optimizer.\<close>

lemma run_calls_lbfgs:
  assumes "mem_available X N"
  shows "run X st N this w =
     (case lbfgs X N (brk w) (static_evaluate X st) (static_progress st)
             (this\<lparr>m_x := Some (brk w)\<rparr>)
             ((lbfgs_parameter_init X)
                \<lparr>epsilon := (1, - 3), max_iterations := num_iterations st, max_linesearch := 5,
                 ftol := (1, - 4), param_m := 5\<rparr>)
             (w\<lparr>mem := (mem w)(brk w := initFieldsAndCouplings X (plmdca_inst st)
                                            (map (junk X) [0..<nat N])),
                live := insert (brk w) (live w),
                brk := Suc (brk w),
                calls := calls w @
                  [Lbfgs_malloc N, InitFieldsAndCouplings (brk w),
                   Lbfgs N (brk w)
                     ((lbfgs_parameter_init X)
                        \<lparr>epsilon := (1, - 3), max_iterations := num_iterations st,
                         max_linesearch := 5, ftol := (1, - 4), param_m := 5\<rparr>)]\<rparr>) of
        (None, w3) \<Rightarrow> ((None, this\<lparr>m_x := Some (brk w)\<rparr>), w3)
      | (Some (ret, fx), w3) \<Rightarrow>
          ((Some ret, this\<lparr>m_x := Some (brk w)\<rparr>),
           if logging st then
             w3\<lparr>stderr := stderr w3 @
                 [(''L-BFGS optimization terminated with status code = %d\<newline>'',
                     [Int_arg ret]),
                  (''fx = %f\<newline>'', [Float_arg fx])]\<rparr>
           else w3))"
proof -
  define a where "a = brk w"
  define w1 where "w1 = w\<lparr>mem := (mem w)(a := map (junk X) [0..<nat N]),
           live := insert a (live w),
           brk := Suc a,
           calls := calls w @ [Lbfgs_malloc N]\<rparr>"
  define param where "param = (lbfgs_parameter_init X)
                 \<lparr>epsilon := (1, - 3),
                  max_iterations := num_iterations st,
                  max_linesearch := 5,
                  ftol := (1, - 4),
                  param_m := 5\<rparr>"
  define w2 where "w2 = w1\<lparr>mem := (mem w1)(a := initFieldsAndCouplings X (plmdca_inst st) (mem w1 a)),
                       calls := calls w1 @ [InitFieldsAndCouplings a]\<rparr>"
  define w2' where "w2' = w2\<lparr>calls := calls w2 @ [Lbfgs N a param]\<rparr>"
  have m: "lbfgs_malloc X N w = (Some a, w1)"
    using assms by (simp add: lbfgs_malloc_def a_def w1_def)
  have r: "run X st N this w =
      (case lbfgs X N a (static_evaluate X st) (static_progress st) (this\<lparr>m_x := Some a\<rparr>)
              param w2' of
         (None, w3) \<Rightarrow> ((None, this\<lparr>m_x := Some a\<rparr>), w3)
       | (Some (ret, fx), w3) \<Rightarrow>
           ((Some ret, this\<lparr>m_x := Some a\<rparr>),
            if logging st then
              w3\<lparr>stderr := stderr w3 @
                  [(''L-BFGS optimization terminated with status code = %d\<newline>'',
                      [Int_arg ret]),
                   (''fx = %f\<newline>'', [Float_arg fx])]\<rparr>
            else w3))"
    unfolding run_def m w2'_def w2_def param_def Let_def
    by (simp only: prod.case option.case)
  have w: "w2' = w\<lparr>mem := (mem w)(a := initFieldsAndCouplings X (plmdca_inst st)
                                            (map (junk X) [0..<nat N])),
                live := insert a (live w),
                brk := Suc a,
                calls := calls w @ [Lbfgs_malloc N, InitFieldsAndCouplings a, Lbfgs N a param]\<rparr>"
    by (simp add: w2'_def w2_def w1_def)
  show ?thesis
    unfolding r w unfolding a_def param_def ..
qed

lemma run_keeps_buffer:
  assumes "mem_available X N" and "writes_in_place X"
  shows "m_x (snd (fst (run X st N this w))) = Some (brk w)"
    and "length (mem (snd (run X st N this w)) (brk w)) = nat N"
    and "brk w \<in> live (snd (run X st N this w))"
proof -
  define a where "a = brk w"
  define w1 where "w1 = w\<lparr>mem := (mem w)(a := map (junk X) [0..<nat N]),
           live := insert a (live w),
           brk := Suc a,
           calls := calls w @ [Lbfgs_malloc N]\<rparr>"
  define this1 where "this1 = this\<lparr>m_x := Some a\<rparr>"
  define param where "param = (lbfgs_parameter_init X)
                 \<lparr>epsilon := (1, - 3),
                  max_iterations := num_iterations st,
                  max_linesearch := 5,
                  ftol := (1, - 4),
                  param_m := 5\<rparr>"
  define w2 where "w2 = w1\<lparr>mem := (mem w1)(a := initFieldsAndCouplings X (plmdca_inst st) (mem w1 a)),
                       calls := calls w1 @ [InitFieldsAndCouplings a]\<rparr>"
  define w2' where "w2' = w2\<lparr>calls := calls w2 @ [Lbfgs N a param]\<rparr>"
  define d where "d = lbfgs X N a (static_evaluate X st) (static_progress st) this1 param w2'"
  have init: "length (initFieldsAndCouplings X e xs) = length xs" for e xs
    using assms(2) by (simp add: writes_in_place_def)
  have len: "length (mem (snd d) a) = length (mem w2' a)"
    and alive: "a \<in> live w2' \<longrightarrow> a \<in> live (snd d)"
    using assms(2) unfolding writes_in_place_def d_def by blast+
  have m: "lbfgs_malloc X N w = (Some a, w1)"
    using assms(1) by (simp add: lbfgs_malloc_def a_def w1_def)
  have r: "run X st N this w =
      (case d of
         (None, w3) \<Rightarrow> ((None, this1), w3)
       | (Some (ret, fx), w3) \<Rightarrow>
           ((Some ret, this1),
            if logging st then
              w3\<lparr>stderr := stderr w3 @
                  [(''L-BFGS optimization terminated with status code = %d\<newline>'',
                      [Int_arg ret]),
                   (''fx = %f\<newline>'', [Float_arg fx])]\<rparr>
            else w3))"
    unfolding run_def m d_def w2'_def w2_def param_def this1_def Let_def
    by (simp only: prod.case option.case)
  have s: "mem (snd (run X st N this w)) = mem (snd d)"
    "live (snd (run X st N this w)) = live (snd d)"
    "snd (fst (run X st N this w)) = this1"
    unfolding r by (cases d; auto split: option.splits)+
  show "m_x (snd (fst (run X st N this w))) = Some (brk w)"
    by (simp add: s this1_def a_def)
  have "length (mem (snd (run X st N this w)) a) = nat N"
    by (simp add: s len w2'_def w2_def w1_def init)
  then show "length (mem (snd (run X st N this w)) (brk w)) = nat N"
    by (simp only: a_def)
  have "a \<in> live (snd (run X st N this w))"
    using alive by (simp add: s w2'_def w2_def w1_def)
  then show "brk w \<in> live (snd (run X st N this w))"
    by (simp only: a_def)
qed

lemma static_init_brk:
  "brk (snd (static_init X biomolecule num_site_states msa_file seqs_len seqid lambda_h lambda_J
               max_iteration num_threads verbose s w)) = brk w"
  by (simp add: static_init_def split: option.splits)

lemma backend_returns_run:
  assumes "plmdcaBackend X biomolecule num_site_states msa_file seqs_len seqid lambda_h lambda_J
             max_iteration num_threads verbose (s, w) = (Inr h, s', w')"
    and "i = static_init X biomolecule num_site_states msa_file seqs_len seqid lambda_h lambda_J
               max_iteration num_threads verbose s w"
    and "N = sint (total_num_params seqs_len num_site_states)"
  obtains st where "fst i = Some st"
    and "h = m_x (snd (fst (run X st N \<lparr>m_x = None\<rparr> (snd i))))"
    and "w' = snd (run X st N \<lparr>m_x = None\<rparr> (snd i))"
  using assms
  by (auto simp: plmdcaBackend_def getFieldsAndCouplings_def Let_def
      split: if_splits prod.splits option.splits)

lemma backend_keeps_buffer:
  assumes "plmdcaBackend X biomolecule num_site_states msa_file seqs_len seqid lambda_h lambda_J
             max_iteration num_threads verbose (s, w) = (Inr h, s', w')"
    and "mem_available X (sint (total_num_params seqs_len num_site_states))"
    and "writes_in_place X"
  shows "h = Some (brk w) \<and>
         length (mem w' (brk w)) = nat (sint (total_num_params seqs_len num_site_states)) \<and>
         brk w \<in> live w'"
proof -
  define i where "i = static_init X biomolecule num_site_states msa_file seqs_len seqid lambda_h
                        lambda_J max_iteration num_threads verbose s w"
  define N where "N = sint (total_num_params seqs_len num_site_states)"
  have b: "brk (snd i) = brk w"
    unfolding i_def by (rule static_init_brk)
  obtain st where h: "h = m_x (snd (fst (run X st N \<lparr>m_x = None\<rparr> (snd i))))"
    and w': "w' = snd (run X st N \<lparr>m_x = None\<rparr> (snd i))"
    using backend_returns_run [OF assms(1) i_def N_def] by blast
  show ?thesis
    unfolding h w' N_def [symmetric]
    using run_keeps_buffer [OF assms(2) [folded N_def] assms(3),
        where st = st and this = "\<lparr>m_x = None\<rparr>" and w = "snd i"]
    by (simp add: b)
qed

text \<open>Where \<open>L\<cdot>Q + L\<cdot>(L-1)/2\<cdot>Q\<^sup>2\<close> is below \<open>2\<^sup>3\<^sup>1\<close>, a returned buffer has that length
  (the engine and the optimizer being assumed to write the block in place).\<close>

lemma returned_buffer_length_in_range:
  assumes "plmdcaBackend X biomolecule num_site_states msa_file seqs_len seqid lambda_h lambda_J
             max_iteration num_threads verbose (s, w) = (Inr h, s', w')"
    and "mem_available X (sint (total_num_params seqs_len num_site_states))"
    and "writes_in_place X"
    and "spec_N (unat seqs_len) (unat num_site_states) < 2 ^ 31"
  shows "h = Some (brk w) \<and> brk w \<in> live w' \<and>
         length (mem w' (brk w)) = spec_N (unat seqs_len) (unat num_site_states)"
  using backend_keeps_buffer [OF assms(1-3)] total_num_params_exact [OF assms(4)]
  by simp

text \<open>
  C1. The buffer returned by \<^verbatim>\<open>plmdcaBackend\<close> is to have length exactly
  \<open>N = L\<cdot>Q + L\<cdot>(L-1)/2\<cdot>Q\<^sup>2\<close>, the total number of fields and couplings. The code
  computes this count in 32-bit arithmetic and does not check its range. For
  \<open>L = 3200\<close> and \<open>Q = 21\<close> the formula gives \<open>2257281600\<close>; the code computes
  \<open>109797952\<close>, requests that many floats, hands that count to the optimizer, and, the
  allocation succeeding, returns a buffer of that shorter length.
\<close>

theorem returned_buffer_wraps:
  "fst (plmdcaBackend still 0 21 ''msa.fa'' 3200 0 0 0 10 1 False (None, boot)) = Inr (Some 0) \<and>
   length (mem (snd (snd (plmdcaBackend still 0 21 ''msa.fa'' 3200 0 0 0 10 1 False (None, boot)))) 0)
     = 109797952 \<and>
   spec_N 3200 21 = 2257281600 \<and>
   calls (snd (snd (plmdcaBackend still 0 21 ''msa.fa'' 3200 0 0 0 10 1 False (None, boot))))
     = [New_PlmDCA, Lbfgs_malloc 109797952, InitFieldsAndCouplings 0,
        Lbfgs 109797952 0
          \<lparr>param_m = 5, epsilon = (1, - 3), max_iterations = 10, max_linesearch = 5,
           ftol = (1, - 4)\<rparr>]"
  by (simp add: plmdcaBackend_def static_init_def run_def lbfgs_malloc_def
        getFieldsAndCouplings_def total_num_params_def still_def boot_def Let_def spec_N_def
        defaults_def)

text \<open>
  C6. Once the Parameter Vector has been allocated (for a count \<open>N \<ge> 0\<close>), whatever
  status \<open>ret\<close> the optimizer returns, \<^verbatim>\<open>getFieldsAndCouplings\<close> gives the allocated
  block, the block is still allocated and has length \<open>N\<close>; and the pointer that
  \<^verbatim>\<open>plmdcaBackend\<close> returns is that block: no status makes it null or changes its
  length. (The engine and the optimizer are assumed to write the block in place.)
\<close>

theorem buffer_survives_any_status:
  assumes "mem_available X N" and "0 \<le> N" and "writes_in_place X"
  shows "(run X st N this w = ((Some ret, obj), w') \<longrightarrow>
            getFieldsAndCouplings obj = Some (brk w) \<and> brk w \<in> live w' \<and>
            int (length (mem w' (brk w))) = N) \<and>
         (N = sint (total_num_params seqs_len num_site_states) \<and>
          plmdcaBackend X biomolecule num_site_states msa_file seqs_len seqid lambda_h lambda_J
             max_iteration num_threads verbose (s, w0) = (Inr h, s', w'') \<longrightarrow>
            h = Some (brk w0) \<and> brk w0 \<in> live w'' \<and>
            int (length (mem w'' (brk w0))) = N)"
proof (rule conjI; rule impI)
  assume r: "run X st N this w = ((Some ret, obj), w')"
  have "obj = snd (fst (run X st N this w))" and "w' = snd (run X st N this w)"
    by (simp_all add: r)
  then show "getFieldsAndCouplings obj = Some (brk w) \<and> brk w \<in> live w' \<and>
            int (length (mem w' (brk w))) = N"
    using run_keeps_buffer [OF assms(1,3), where st = st and this = this and w = w] assms(2)
    by (simp add: getFieldsAndCouplings_def)
next
  assume b: "N = sint (total_num_params seqs_len num_site_states) \<and>
          plmdcaBackend X biomolecule num_site_states msa_file seqs_len seqid lambda_h lambda_J
             max_iteration num_threads verbose (s, w0) = (Inr h, s', w'')"
  then have "mem_available X (sint (total_num_params seqs_len num_site_states))"
    using assms(1) by simp
  from backend_keeps_buffer [OF conjunct2 [OF b] this assms(3)] b assms(2)
  show "h = Some (brk w0) \<and> brk w0 \<in> live w'' \<and> int (length (mem w'' (brk w0))) = N"
    by simp
qed

theorem buffer_survives_any_status_witness:
  "fst (fst (run (stopping (- 1001))
               \<lparr>plmdca_inst = ''msa.fa'', num_iterations = 10, logging = True\<rparr>
               18 \<lparr>m_x = None\<rparr> boot)) = Some (- 1001) \<and>
   getFieldsAndCouplings (snd (fst (run (stopping (- 1001))
               \<lparr>plmdca_inst = ''msa.fa'', num_iterations = 10, logging = True\<rparr>
               18 \<lparr>m_x = None\<rparr> boot))) = Some 0 \<and>
   length (mem (snd (run (stopping (- 1001))
               \<lparr>plmdca_inst = ''msa.fa'', num_iterations = 10, logging = True\<rparr>
               18 \<lparr>m_x = None\<rparr> boot)) 0) = 18 \<and>
   fst (plmdcaBackend (stopping (- 1001)) 0 2 ''msa.fa'' 3 0 0 0 10 1 False (None, boot))
     = Inr (Some 0) \<and>
   length (mem (snd (snd (plmdcaBackend (stopping (- 1001)) 0 2 ''msa.fa'' 3 0 0 0 10 1 False
                            (None, boot)))) 0) = 18"
proof -
  let ?X = "stopping (- 1001)"
  let ?st = "\<lparr>plmdca_inst = ''msa.fa'', num_iterations = 10, logging = True\<rparr>"
  let ?r = "run ?X ?st 18 \<lparr>m_x = None\<rparr> boot"
  let ?b = "plmdcaBackend ?X 0 2 ''msa.fa'' 3 0 0 0 10 1 False (None, boot)"
  have a: "mem_available ?X 18" and z: "(0::int) \<le> 18" and p: "writes_in_place ?X"
    by (simp_all add: writes_in_place_def stopping_def still_def)
  have r: "fst (fst ?r) = Some (- 1001)"
    by (simp add: run_def lbfgs_malloc_def stopping_def still_def boot_def Let_def)
  have er: "?r = ((Some (- 1001), snd (fst ?r)), snd ?r)"
    by (simp only: r [symmetric] prod.collapse)
  have b: "fst ?b = Inr (Some 0)"
    by (simp add: plmdcaBackend_def static_init_def run_def lbfgs_malloc_def
        getFieldsAndCouplings_def total_num_params_def stopping_def still_def boot_def Let_def)
  have n: "18 = sint (total_num_params 3 2)"
    by (simp add: total_num_params_def)
  have eb: "?b = (Inr (Some 0), fst (snd ?b), snd (snd ?b))"
    by (simp only: b [symmetric] prod.collapse)
  show ?thesis
    using buffer_survives_any_status [OF a z p, where st = ?st and this = "\<lparr>m_x = None\<rparr>"
        and w = boot and ret = "- 1001" and obj = "snd (fst ?r)" and w' = "snd ?r"
        and seqs_len = 3 and num_site_states = 2 and biomolecule = 0 and msa_file = "''msa.fa''"
        and seqid = 0 and lambda_h = 0 and lambda_J = 0 and max_iteration = 10
        and num_threads = 1 and verbose = False and s = None and ?w0.0 = boot
        and h = "Some 0" and s' = "fst (snd ?b)" and w'' = "snd (snd ?b)"] er eb n r b
    by (simp add: boot_def)
qed


section \<open>Errors\<close>

text \<open>
  C2. With more than one thread requested and no OpenMP support, \<^verbatim>\<open>plmdcaBackend\<close> is
  left by the exception at once: the message is on \<^verbatim>\<open>stderr\<close> and nothing else has
  changed, so no engine has been constructed (the statics are as before), nothing has
  been allocated and no call has been made; no pointer is returned. With at most one
  thread, or with OpenMP support, this exception is not raised.
\<close>

theorem thread_check:
  "(\<not> OPENMP X \<and> 1 < num_threads \<longrightarrow>
      plmdcaBackend X biomolecule num_site_states msa_file seqs_len seqid lambda_h lambda_J
          max_iteration num_threads verbose (s, w)
        = (Inl Invalid_number_of_threads, s,
           w\<lparr>stderr := stderr w @
               [(''Cannot set multiple threads when OpenMP is not supported\<newline>'', [])]\<rparr>)) \<and>
   (OPENMP X \<or> num_threads \<le> 1 \<longrightarrow>
      fst (plmdcaBackend X biomolecule num_site_states msa_file seqs_len seqid lambda_h
             lambda_J max_iteration num_threads verbose (s, w))
        \<noteq> Inl Invalid_number_of_threads)"
  by (auto simp: plmdcaBackend_def Let_def split: prod.splits option.splits)

theorem thread_check_witness:
  "plmdcaBackend still 0 2 ''msa.fa'' 3 0 0 0 10 3 False (None, boot)
     = (Inl Invalid_number_of_threads, None,
        boot\<lparr>stderr :=
            [(''Cannot set multiple threads when OpenMP is not supported\<newline>'', [])]\<rparr>) \<and>
   fst (plmdcaBackend still 0 2 ''msa.fa'' 3 0 0 0 10 1 False (None, boot))
     \<noteq> Inl Invalid_number_of_threads \<and>
   fst (plmdcaBackend (still\<lparr>OPENMP := True\<rparr>) 0 2 ''msa.fa'' 3 0 0 0 10 3 False (None, boot))
     \<noteq> Inl Invalid_number_of_threads"
  using thread_check [where X = still and num_threads = 3 and s = None and w = boot
      and biomolecule = 0 and num_site_states = 2 and msa_file = "''msa.fa''" and seqs_len = 3
      and seqid = 0 and lambda_h = 0 and lambda_J = 0 and max_iteration = 10 and verbose = False]
    thread_check [where X = still and num_threads = 1 and s = None and w = boot
      and biomolecule = 0 and num_site_states = 2 and msa_file = "''msa.fa''" and seqs_len = 3
      and seqid = 0 and lambda_h = 0 and lambda_J = 0 and max_iteration = 10 and verbose = False]
    thread_check [where X = "still\<lparr>OPENMP := True\<rparr>" and num_threads = 3 and s = None
      and w = boot
      and biomolecule = 0 and num_site_states = 2 and msa_file = "''msa.fa''" and seqs_len = 3
      and seqid = 0 and lambda_h = 0 and lambda_J = 0 and max_iteration = 10 and verbose = False]
  by (simp add: still_def boot_def)

text \<open>
  C3. When \<^verbatim>\<open>lbfgs_malloc\<close> returns the null pointer, \<^verbatim>\<open>run\<close> prints the error message
  (with \<^verbatim>\<open>printf\<close>) and returns \<open>1\<close>; the only call made is the one to
  \<^verbatim>\<open>lbfgs_malloc\<close>, so neither \<^verbatim>\<open>initFieldsAndCouplings\<close> nor \<^verbatim>\<open>lbfgs\<close> is called; the
  accessor gives the null pointer, and so does \<^verbatim>\<open>plmdcaBackend\<close> (unless the engine's
  constructor throws before \<^verbatim>\<open>run\<close> is reached, on a call that has to construct it).
\<close>

theorem allocation_failure:
  "\<not> mem_available X N \<longrightarrow>
     run X st N this w
       = ((Some 1, this\<lparr>m_x := None\<rparr>),
          w\<lparr>calls := calls w @ [Lbfgs_malloc N],
            stdout := stdout w @
              [(''ERROR: Failed to allocate a memory block for variables.\<newline>'', [])]\<rparr>) \<and>
     getFieldsAndCouplings (snd (fst (run X st N this w))) = None \<and>
     ((OPENMP X \<or> num_threads \<le> 1) \<and> N = sint (total_num_params seqs_len num_site_states) \<longrightarrow>
        fst (plmdcaBackend X biomolecule num_site_states msa_file seqs_len seqid lambda_h
               lambda_J max_iteration num_threads verbose (s, w0))
          = (if s = None \<and>
                PlmDCA X msa_file biomolecule seqs_len num_site_states seqid lambda_h lambda_J
                  num_threads = None
             then Inl Engine_failure else Inr None))"
  by (auto simp: run_def lbfgs_malloc_def getFieldsAndCouplings_def plmdcaBackend_def
      static_init_def Let_def split: prod.splits option.splits)

theorem allocation_failure_witness:
  "\<not> mem_available exhausted 18 \<and>
   run exhausted \<lparr>plmdca_inst = ''msa.fa'', num_iterations = 10, logging = True\<rparr> 18
       \<lparr>m_x = None\<rparr> boot
     = ((Some 1, \<lparr>m_x = None\<rparr>),
        boot\<lparr>calls := [Lbfgs_malloc 18],
             stdout := [(''ERROR: Failed to allocate a memory block for variables.\<newline>'', [])]\<rparr>) \<and>
   fst (plmdcaBackend exhausted 0 2 ''msa.fa'' 3 0 0 0 10 1 True (None, boot)) = Inr None"
  using allocation_failure [where X = exhausted and N = 18 and this = "\<lparr>m_x = None\<rparr>"
      and st = "\<lparr>plmdca_inst = ''msa.fa'', num_iterations = 10, logging = True\<rparr>"
      and w = boot and num_threads = 1 and seqs_len = 3 and num_site_states = 2
      and biomolecule = 0 and msa_file = "''msa.fa''" and seqid = 0 and lambda_h = 0
      and lambda_J = 0 and max_iteration = 10 and verbose = True and s = None and ?w0.0 = boot]
  by (simp add: exhausted_def still_def boot_def total_num_params_def)

text \<open>
  C5 (as amended). The evaluation callback does no exception handling: it is left by an
  exception exactly when the engine's \<^verbatim>\<open>gradient\<close> throws, and no sentinel value is put in
  its place; when \<^verbatim>\<open>gradient\<close> returns, the callback returns the objective value it
  computed and \<^verbatim>\<open>g\<close> holds the gradient it wrote.
\<close>

theorem evaluate_propagates:
  "(fst (static_evaluate X st inst x g n step w) = None
      \<longleftrightarrow> gradient X (plmdca_inst st) (mem w x) (mem w g) = None) \<and>
   fst (static_evaluate X st inst x g n step w)
      = map_option fst (gradient X (plmdca_inst st) (mem w x) (mem w g)) \<and>
   mem (snd (static_evaluate X st inst x g n step w))
      = (case gradient X (plmdca_inst st) (mem w x) (mem w g) of
           None \<Rightarrow> mem w | Some (fx, g') \<Rightarrow> (mem w)(g := g'))"
  by (simp add: static_evaluate_def evaluate_def Let_def split: option.splits)

text \<open>
  The stronger statement, that no exception crosses the callback boundary, fails for an
  engine whose gradient throws: the callback is left by the exception.
\<close>

theorem evaluate_throws:
  "fst (static_evaluate throwing \<lparr>plmdca_inst = ''a.fa'', num_iterations = 10, logging = False\<rparr>
          \<lparr>m_x = Some 0\<rparr> 0 1 18 0 boot) = None"
  by (simp add: static_evaluate_def evaluate_def throwing_def still_def)

text \<open>
  C7. \<^verbatim>\<open>freeFieldsAndCouplings\<close> with the null pointer returns normally and changes
  nothing; with the pointer to an allocated block it deletes that block, once.
\<close>

theorem release:
  "freeFieldsAndCouplings None w = Some w \<and>
   (a \<in> live w \<longrightarrow>
      (\<exists>w'. freeFieldsAndCouplings (Some a) w = Some w' \<and>
            w' = w\<lparr>live := live w - {a}, calls := calls w @ [Delete_array a]\<rparr> \<and>
            a \<notin> live w' \<and> mem w' = mem w \<and>
            count_list (calls w') (Delete_array a)
              = Suc (count_list (calls w) (Delete_array a))))"
  by (simp add: freeFieldsAndCouplings_def)

theorem release_witness:
  "(0::nat) \<in> live (boot\<lparr>live := {0}\<rparr> :: int world) \<and>
   freeFieldsAndCouplings None (boot :: int world) = Some boot \<and>
   freeFieldsAndCouplings (Some 0) (boot\<lparr>live := {0}\<rparr> :: int world)
     = Some (boot\<lparr>calls := [Delete_array 0]\<rparr>) \<and>
   freeFieldsAndCouplings (Some 0) (boot\<lparr>calls := [Delete_array 0]\<rparr> :: int world) = None"
  using release [where a = 0 and w = "boot\<lparr>live := {0}\<rparr> :: int world"]
    release [where w = "boot :: int world"]
  by (simp add: boot_def freeFieldsAndCouplings_def)


section \<open>Callbacks and statics\<close>

text \<open>
  C8. The progress callback, whatever its arguments, returns \<open>0\<close> and changes neither
  the heap (so neither the parameter vector nor the gradient) nor anything else but
  \<^verbatim>\<open>stderr\<close>; there it prints the iteration index, the objective value, the two norms
  and the step when logging is on, and nothing otherwise. The statics are not part of
  its result: it cannot change them.
\<close>

theorem progress_observational:
  "fst (progress st this x g fx xnorm gnorm step n k ls w) = 0 \<and>
   fst (static_progress st this x g fx xnorm gnorm step n k ls w) = 0 \<and>
   snd (static_progress st this x g fx xnorm gnorm step n k ls w)
     = snd (progress st this x g fx xnorm gnorm step n k ls w) \<and>
   mem (snd (progress st this x g fx xnorm gnorm step n k ls w)) = mem w \<and>
   live (snd (progress st this x g fx xnorm gnorm step n k ls w)) = live w \<and>
   brk (snd (progress st this x g fx xnorm gnorm step n k ls w)) = brk w \<and>
   calls (snd (progress st this x g fx xnorm gnorm step n k ls w)) = calls w \<and>
   stdout (snd (progress st this x g fx xnorm gnorm step n k ls w)) = stdout w \<and>
   stderr (snd (progress st this x g fx xnorm gnorm step n k ls w))
     = stderr w @
         (if logging st then
            [(''Iteration %d:\<newline>'', [Int_arg k]),
             (''fx = %f xnorm = %f, gnorm = %f, step = %f\<newline>'',
                [Float_arg fx, Float_arg xnorm, Float_arg gnorm, Float_arg step]),
             (''\<newline>'', [])]
          else [])"
  by (simp add: progress_def static_progress_def)

text \<open>
  C9 (as amended). Once a call has got past the thread check and the construction of
  its engine has completed, the statics hold that engine, that call's \<^verbatim>\<open>max_iteration\<close>
  and its \<^verbatim>\<open>verbose\<close>. Every later call leaves them as they are, and its result does not
  depend on its \<^verbatim>\<open>msa_file\<close>, \<^verbatim>\<open>biomolecule\<close>, \<^verbatim>\<open>seqid\<close>, \<^verbatim>\<open>lambda_h\<close>, \<^verbatim>\<open>lambda_J\<close>,
  \<^verbatim>\<open>max_iteration\<close> and \<^verbatim>\<open>verbose\<close> arguments: when it passes the thread check and its
  allocation succeeds, it is one call of the optimizer with the captured engine behind
  both callbacks, the captured cap as \<^verbatim>\<open>max_iterations\<close>, and the captured flag deciding
  whether the callbacks and the final report print.
\<close>

theorem statics_captured_once:
  assumes "plmdcaBackend X bm1 Q1 f1 L1 sid1 lh1 lJ1 mi1 nt1 vb1 (None, w0) = (r1, s1, w1)"
    and "r1 \<noteq> Inl Invalid_number_of_threads"
    and "PlmDCA X f1 bm1 L1 Q1 sid1 lh1 lJ1 nt1 = Some e1"
  shows "s1 = Some \<lparr>plmdca_inst = e1, num_iterations = sint mi1, logging = vb1\<rparr> \<and>
         plmdcaBackend X biomolecule num_site_states msa_file seqs_len seqid lambda_h lambda_J
             max_iteration num_threads verbose (s1, w)
           = plmdcaBackend X biomolecule' num_site_states msa_file' seqs_len seqid' lambda_h'
               lambda_J' max_iteration' num_threads verbose' (s1, w) \<and>
         fst (snd (plmdcaBackend X biomolecule num_site_states msa_file seqs_len seqid lambda_h
                     lambda_J max_iteration num_threads verbose (s1, w))) = s1 \<and>
         ((OPENMP X \<or> num_threads \<le> 1) \<and>
          mem_available X (sint (total_num_params seqs_len num_site_states)) \<longrightarrow>
            plmdcaBackend X biomolecule num_site_states msa_file seqs_len seqid lambda_h lambda_J
                max_iteration num_threads verbose (s1, w)
              = (let N = sint (total_num_params seqs_len num_site_states);
                     st = \<lparr>plmdca_inst = e1, num_iterations = sint mi1, logging = vb1\<rparr>;
                     param = (lbfgs_parameter_init X)
                       \<lparr>epsilon := (1, - 3), max_iterations := sint mi1, max_linesearch := 5,
                        ftol := (1, - 4), param_m := 5\<rparr>
                 in case lbfgs X N (brk w) (static_evaluate X st) (static_progress st)
                           \<lparr>m_x = Some (brk w)\<rparr> param
                           (w\<lparr>mem := (mem w)(brk w := initFieldsAndCouplings X e1
                                                          (map (junk X) [0..<nat N])),
                              live := insert (brk w) (live w),
                              brk := Suc (brk w),
                              calls := calls w @
                                [Lbfgs_malloc N, InitFieldsAndCouplings (brk w),
                                 Lbfgs N (brk w) param]\<rparr>) of
                      (None, w3) \<Rightarrow> (Inl Engine_failure, s1, w3)
                    | (Some (ret, fx), w3) \<Rightarrow>
                        (Inr (Some (brk w)), s1,
                         if vb1 then
                           w3\<lparr>stderr := stderr w3 @
                               [(''L-BFGS optimization terminated with status code = %d\<newline>'',
                                   [Int_arg ret]),
                                (''fx = %f\<newline>'', [Float_arg fx])]\<rparr>
                         else w3)))"
proof -
  have s1: "s1 = Some \<lparr>plmdca_inst = e1, num_iterations = sint mi1, logging = vb1\<rparr>"
    using assms
    by (auto simp: plmdcaBackend_def static_init_def Let_def
        split: if_splits prod.splits option.splits)
  have t: "\<not> (\<not> OPENMP X \<and> 1 < num_threads)" if "OPENMP X \<or> num_threads \<le> 1"
    using that by (auto simp: not_less)
  show ?thesis
    unfolding s1
    by (auto simp: plmdcaBackend_def static_init_def Let_def run_calls_lbfgs
        getFieldsAndCouplings_def dest: t split: prod.splits option.splits)
qed

theorem statics_captured_once_witness:
  "fst (plmdcaBackend echoing 0 2 ''a.fa'' 3 0 0 0 10 1 True (None, boot))
     \<noteq> Inl Invalid_number_of_threads \<and>
   PlmDCA echoing ''a.fa'' 0 3 2 0 0 0 1 = Some ''a.fa'' \<and>
   fst (snd (plmdcaBackend echoing 0 2 ''a.fa'' 3 0 0 0 10 1 True (None, boot)))
     = Some \<lparr>plmdca_inst = ''a.fa'', num_iterations = 10, logging = True\<rparr> \<and>
   plmdcaBackend echoing 0 2 ''a.fa'' 3 0 0 0 10 1 True
       (snd (plmdcaBackend echoing 0 2 ''a.fa'' 3 0 0 0 10 1 True (None, boot)))
     = plmdcaBackend echoing 1 2 ''b.fa'' 3 7 8 9 0 1 False
         (snd (plmdcaBackend echoing 0 2 ''a.fa'' 3 0 0 0 10 1 True (None, boot))) \<and>
   fst (snd (plmdcaBackend echoing 1 2 ''b.fa'' 3 7 8 9 0 1 False
               (snd (plmdcaBackend echoing 0 2 ''a.fa'' 3 0 0 0 10 1 True (None, boot)))))
     = Some \<lparr>plmdca_inst = ''a.fa'', num_iterations = 10, logging = True\<rparr> \<and>
   stderr (snd (snd (plmdcaBackend echoing 1 2 ''b.fa'' 3 7 8 9 0 1 False
               (snd (plmdcaBackend echoing 0 2 ''a.fa'' 3 0 0 0 10 1 True (None, boot))))))
     = [(''L-BFGS optimization terminated with status code = %d\<newline>'', [Int_arg 10]),
        (''fx = %f\<newline>'', [Float_arg 0]),
        (''L-BFGS optimization terminated with status code = %d\<newline>'', [Int_arg 10]),
        (''fx = %f\<newline>'', [Float_arg 0])]"
proof -
  let ?b = "plmdcaBackend echoing 0 2 ''a.fa'' 3 0 0 0 10 1 True (None, boot)"
  let ?c = "plmdcaBackend echoing 1 2 ''b.fa'' 3 7 8 9 0 1 False (snd ?b)"
  have r: "fst ?b \<noteq> Inl Invalid_number_of_threads"
    by (simp add: plmdcaBackend_def static_init_def run_def lbfgs_malloc_def
        getFieldsAndCouplings_def total_num_params_def echoing_def still_def boot_def Let_def)
  have c: "PlmDCA echoing ''a.fa'' 0 3 2 0 0 0 1 = Some ''a.fa''"
    by (simp add: echoing_def still_def)
  have e: "?b = (fst ?b, fst (snd ?b), snd (snd ?b))"
    by simp
  have p: "snd ?b = (fst (snd ?b), snd (snd ?b))"
    by simp
  note t = statics_captured_once [OF e r c, where w = "snd (snd ?b)"]
  have s: "fst (snd ?b) = Some \<lparr>plmdca_inst = ''a.fa'', num_iterations = 10, logging = True\<rparr>"
    using t [where biomolecule = 0] by simp
  have q: "plmdcaBackend echoing 0 2 ''a.fa'' 3 0 0 0 10 1 True (snd ?b) = ?c"
    using t [where biomolecule = 0 and num_site_states = 2 and msa_file = "''a.fa''"
        and seqs_len = 3 and seqid = 0 and lambda_h = 0 and lambda_J = 0 and max_iteration = 10
        and num_threads = 1 and verbose = True and biomolecule' = 1 and msa_file' = "''b.fa''"
        and seqid' = 7 and lambda_h' = 8 and lambda_J' = 9 and max_iteration' = 0
        and verbose' = False]
    by (simp only: p [symmetric])
  note u = t [where biomolecule = 1 and num_site_states = 2 and msa_file = "''b.fa''"
        and seqs_len = 3 and seqid = 7 and lambda_h = 8 and lambda_J = 9 and max_iteration = 0
        and num_threads = 1 and verbose = False, folded p]
  have k: "fst (snd ?c) = fst (snd ?b)"
    using u by (simp only:)
  have o: "(OPENMP echoing \<or> (1 :: 32 word) \<le> 1) \<and>
      mem_available echoing (sint (total_num_params 3 2))"
    by (simp add: echoing_def still_def)
  have w: "stderr (snd (snd ?b))
      = [(''L-BFGS optimization terminated with status code = %d\<newline>'', [Int_arg 10]),
         (''fx = %f\<newline>'', [Float_arg 0])]"
    by (simp add: plmdcaBackend_def static_init_def run_def lbfgs_malloc_def
        getFieldsAndCouplings_def total_num_params_def echoing_def still_def boot_def Let_def)
  have "stderr (snd (snd ?c))
      = stderr (snd (snd ?b)) @
        [(''L-BFGS optimization terminated with status code = %d\<newline>'', [Int_arg 10]),
         (''fx = %f\<newline>'', [Float_arg 0])]"
    using u [THEN conjunct2, THEN conjunct2, THEN conjunct2, THEN mp, OF o]
    by (simp add: echoing_def still_def Let_def)
  then have v: "stderr (snd (snd ?c))
      = [(''L-BFGS optimization terminated with status code = %d\<newline>'', [Int_arg 10]),
         (''fx = %f\<newline>'', [Float_arg 0]),
         (''L-BFGS optimization terminated with status code = %d\<newline>'', [Int_arg 10]),
         (''fx = %f\<newline>'', [Float_arg 0])]"
    by (simp add: w)
  show ?thesis
    using r c s q k v by (simp only:) simp
qed

text \<open>
  Counting from the first call of the process is not enough. A first call that is
  stopped by the thread check, or whose engine cannot be constructed, captures nothing:
  the next call captures its own arguments, and its result depends on them.
\<close>

theorem statics_not_captured_by_stopped_call:
  "fst (plmdcaBackend still 0 2 ''a.fa'' 3 0 0 0 10 3 True (None, boot))
     = Inl Invalid_number_of_threads \<and>
   fst (snd (plmdcaBackend still 0 2 ''b.fa'' 3 0 0 0 0 1 False
               (snd (plmdcaBackend still 0 2 ''a.fa'' 3 0 0 0 10 3 True (None, boot)))))
     = Some \<lparr>plmdca_inst = ''b.fa'', num_iterations = 0, logging = False\<rparr> \<and>
   plmdcaBackend still 0 2 ''b.fa'' 3 0 0 0 0 1 False
       (snd (plmdcaBackend still 0 2 ''a.fa'' 3 0 0 0 10 3 True (None, boot)))
     \<noteq> plmdcaBackend still 0 2 ''c.fa'' 3 0 0 0 5 1 True
         (snd (plmdcaBackend still 0 2 ''a.fa'' 3 0 0 0 10 3 True (None, boot))) \<and>
   fst (plmdcaBackend still 0 2 [] 3 0 0 0 10 1 True (None, boot)) = Inl Engine_failure \<and>
   fst (snd (plmdcaBackend still 0 2 ''b.fa'' 3 0 0 0 0 1 False
               (snd (plmdcaBackend still 0 2 [] 3 0 0 0 10 1 True (None, boot)))))
     = Some \<lparr>plmdca_inst = ''b.fa'', num_iterations = 0, logging = False\<rparr>"
  by (simp add: plmdcaBackend_def static_init_def run_def lbfgs_malloc_def
      getFieldsAndCouplings_def total_num_params_def still_def boot_def Let_def)

text \<open>
  C4. A run invoked with \<^verbatim>\<open>max_iteration = 0\<close> is to perform the initial evaluation and no
  descent step. The cap that \<^verbatim>\<open>run\<close> hands to the optimizer is the static
  \<^verbatim>\<open>num_iterations\<close>, not the argument of the call: after a first call with
  \<^verbatim>\<open>max_iteration = 1\<close>, a call with \<^verbatim>\<open>max_iteration = 0\<close> calls \<^verbatim>\<open>lbfgs\<close> with
  \<^verbatim>\<open>max_iterations = 1\<close>.
\<close>

theorem later_call_keeps_first_cap:
  "fst (plmdcaBackend still 0 1 ''msa.fa'' 1 0 0 0 0 1 False
          (snd (plmdcaBackend still 0 1 ''msa.fa'' 1 0 0 0 1 1 False (None, boot))))
     = Inr (Some 1) \<and>
   fst (snd (plmdcaBackend still 0 1 ''msa.fa'' 1 0 0 0 0 1 False
          (snd (plmdcaBackend still 0 1 ''msa.fa'' 1 0 0 0 1 1 False (None, boot)))))
     = Some \<lparr>plmdca_inst = ''msa.fa'', num_iterations = 1, logging = False\<rparr> \<and>
   calls (snd (snd (plmdcaBackend still 0 1 ''msa.fa'' 1 0 0 0 0 1 False
          (snd (plmdcaBackend still 0 1 ''msa.fa'' 1 0 0 0 1 1 False (None, boot))))))
     = [New_PlmDCA, Lbfgs_malloc 1, InitFieldsAndCouplings 0,
        Lbfgs 1 0
          \<lparr>param_m = 5, epsilon = (1, - 3), max_iterations = 1, max_linesearch = 5,
           ftol = (1, - 4)\<rparr>,
        Lbfgs_malloc 1, InitFieldsAndCouplings 1,
        Lbfgs 1 1
          \<lparr>param_m = 5, epsilon = (1, - 3), max_iterations = 1, max_linesearch = 5,
           ftol = (1, - 4)\<rparr>]"
  by (simp add: plmdcaBackend_def static_init_def run_def lbfgs_malloc_def
        getFieldsAndCouplings_def total_num_params_def still_def boot_def Let_def defaults_def)

text \<open>With the specification's Driver as the optimizer, that call takes a descent step
  and returns a vector that is not the output of \<^verbatim>\<open>initFieldsAndCouplings\<close>.\<close>

lemma later_call_descends:
  "fst (plmdcaBackend descending 0 1 ''msa.fa'' 1 0 0 0 0 1 False
          (snd (plmdcaBackend descending 0 1 ''msa.fa'' 1 0 0 0 1 1 False (None, boot))))
     = Inr (Some 2) \<and>
   mem (snd (snd (plmdcaBackend descending 0 1 ''msa.fa'' 1 0 0 0 0 1 False
          (snd (plmdcaBackend descending 0 1 ''msa.fa'' 1 0 0 0 1 1 False (None, boot)))))) 2
     = [0] \<and>
   initFieldsAndCouplings descending ''msa.fa'' (map (junk descending) [0..<1]) = [1]"
  by (simp add: plmdcaBackend_def static_init_def run_def lbfgs_malloc_def lbfgs_spec_def
      static_evaluate_def evaluate_def static_progress_def progress_def getFieldsAndCouplings_def
      total_num_params_def descending_def still_def unit_step_def defaults_def boot_def Let_def)

end
